theory Spec2Isabelle
  imports Main "HOL-Library.Multiset"
begin

text \<open>
  The JSON routes of \<^verbatim>\<open>app.py\<close>, a Flask application over two SQLAlchemy tables, as functions
  from the request (session, body, path parameter), the database and what the surroundings
  decide, to the response and the database afterwards. The page routes, \<^verbatim>\<open>api_logout\<close> and
  \<^verbatim>\<open>api_me\<close> touch neither table and are left out, as are the \<^verbatim>\<open>print\<close> calls of the
  exception handlers.
\<close>

section \<open>Strings\<close>

text \<open>
  A Python \<^verbatim>\<open>str\<close> is a sequence of Unicode code points; \<^verbatim>\<open>len\<close> counts code points.
  It is modelled as a list of code points. String literals of \<^verbatim>\<open>app.py\<close> are ASCII and are
  written through \<open>lit\<close>.
\<close>

type_synonym pystr = "nat list"

definition lit :: "string \<Rightarrow> pystr" where
  "lit s = map of_char s"

text \<open>
  \<^verbatim>\<open>str.strip()\<close> without argument removes leading and trailing whitespace, where a code
  point is whitespace when \<^verbatim>\<open>str.isspace\<close> holds of it: U+0009..U+000D, U+001C..U+0020,
  U+0085, U+00A0, U+1680, U+2000..U+200A, U+2028, U+2029, U+202F, U+205F, U+3000.
\<close>

definition isspace :: "nat \<Rightarrow> bool" where
  "isspace c \<longleftrightarrow>
     (9 \<le> c \<and> c \<le> 13) \<or> (28 \<le> c \<and> c \<le> 32) \<or> c = 133 \<or> c = 160 \<or> c = 5760 \<or>
     (8192 \<le> c \<and> c \<le> 8202) \<or> c = 8232 \<or> c = 8233 \<or> c = 8239 \<or> c = 8287 \<or> c = 12288"

definition lstrip :: "pystr \<Rightarrow> pystr" where
  "lstrip s = dropWhile isspace s"

definition rstrip :: "pystr \<Rightarrow> pystr" where
  "rstrip s = rev (dropWhile isspace (rev s))"

definition strip :: "pystr \<Rightarrow> pystr" where
  "strip s = rstrip (lstrip s)"

section \<open>Data model\<close>

text \<open>
  The two tables of \<^verbatim>\<open>app.py\<close>. Column \<^verbatim>\<open>id\<close> is \<open>uid\<close> for \<^verbatim>\<open>User\<close> and \<open>tid\<close> for
  \<^verbatim>\<open>Task\<close>; \<^verbatim>\<open>User.created_at\<close> is \<open>u_created_at\<close>; \<^verbatim>\<open>Task.done\<close> is \<open>is_done\<close>.
  A timestamp is the stored value of the \<^verbatim>\<open>DateTime\<close> column, as an integer count of
  clock ticks.
\<close>

record user =
  uid :: int
  username :: pystr
  email :: pystr
  password_hash :: pystr
  u_created_at :: int

record task =
  tid :: int
  title :: pystr
  content :: pystr
  is_done :: bool
  created_at :: int
  user_id :: int

text \<open>
  The database holds the two tables and the collation of its string columns: the relation that
  SQL \<open>=\<close> computes on two strings. \<^verbatim>\<open>app.py\<close> sets no collation on a column, so the default
  of the backend applies: exact on PostgreSQL, case-insensitive on MySQL.
\<close>

record database =
  users :: "user list"
  tasks :: "task list"
  collation :: "pystr \<Rightarrow> pystr \<Rightarrow> bool"

text \<open>
  The Flask session: a dictionary in which \<^verbatim>\<open>api_login\<close> stores the keys \<^verbatim>\<open>user_id\<close>
  and \<^verbatim>\<open>username\<close>.
\<close>

record session =
  sess_user_id :: "int option"
  sess_username :: "pystr option"

text \<open>
  The parsed JSON body of a request, \<^verbatim>\<open>request.get_json()\<close>: a dictionary. The fields read by
  the handlers are taken to be strings when present; \<open>get\<close> is \<^verbatim>\<open>data.get(k, d)\<close>. A field
  that holds another JSON value (a number, \<^verbatim>\<open>null\<close>) is outside this type.
\<close>

type_synonym json_body = "pystr \<rightharpoonup> pystr"

definition get :: "json_body \<Rightarrow> string \<Rightarrow> pystr \<Rightarrow> pystr" where
  "get data k d = (case data (lit k) of None \<Rightarrow> d | Some v \<Rightarrow> v)"

text \<open>
  What the surroundings decide during one request: the clock read by the \<^verbatim>\<open>created_at\<close>
  default, the primary key the database assigns to an inserted row, and whether
  \<^verbatim>\<open>db.session.commit()\<close> goes through or raises.
\<close>

record env =
  now :: int
  new_id :: int
  commit_ok :: bool

section \<open>Responses\<close>

record task_json =
  j_id :: int
  j_title :: pystr
  j_content :: pystr
  j_done :: bool
  j_created_at :: pystr
  j_user_id :: int

record response =
  status :: nat
  success :: bool
  message :: "pystr option"
  user_json :: "(int \<times> pystr \<times> pystr) option"
  tasks_json :: "task_json list option"

definition jsonify :: "string \<Rightarrow> bool \<Rightarrow> nat \<Rightarrow> response" where
  "jsonify m ok code =
     \<lparr>status = code, success = ok, message = Some (lit m), user_json = None, tasks_json = None\<rparr>"

section \<open>The database session\<close>

text \<open>
  Changes registered with \<^verbatim>\<open>db.session\<close> (an added object, an assigned attribute of a loaded
  row, a deleted object) are pending until \<^verbatim>\<open>commit\<close>. A commit that goes through writes all of
  them, in order; a commit that raises writes none, which is the transaction guarantee of the
  database, and \<^verbatim>\<open>rollback\<close> then discards the pending changes. An inserted row gets its
  primary key from the database and its \<^verbatim>\<open>created_at\<close> from the clock; \<^verbatim>\<open>done\<close> defaults to
  false. An attribute assignment and a deletion address the row by its primary key.
\<close>

datatype change =
    InsertUser pystr pystr pystr
  | InsertTask pystr pystr int
  | SetTitle int pystr
  | SetContent int pystr
  | SetDone int bool
  | DeleteTask int

fun flush :: "env \<Rightarrow> database \<Rightarrow> change \<Rightarrow> database" where
  "flush e db (InsertUser u em h) =
     db\<lparr>users := users db @
       [\<lparr>uid = new_id e, username = u, email = em, password_hash = h, u_created_at = now e\<rparr>]\<rparr>"
| "flush e db (InsertTask t c u) =
     db\<lparr>tasks := tasks db @
       [\<lparr>tid = new_id e, title = t, content = c, is_done = False, created_at = now e, user_id = u\<rparr>]\<rparr>"
| "flush e db (SetTitle i t) =
     db\<lparr>tasks := map (\<lambda>r. if tid r = i then r\<lparr>title := t\<rparr> else r) (tasks db)\<rparr>"
| "flush e db (SetContent i c) =
     db\<lparr>tasks := map (\<lambda>r. if tid r = i then r\<lparr>content := c\<rparr> else r) (tasks db)\<rparr>"
| "flush e db (SetDone i b) =
     db\<lparr>tasks := map (\<lambda>r. if tid r = i then r\<lparr>is_done := b\<rparr> else r) (tasks db)\<rparr>"
| "flush e db (DeleteTask i) =
     db\<lparr>tasks := filter (\<lambda>r. tid r \<noteq> i) (tasks db)\<rparr>"

definition commit :: "env \<Rightarrow> database \<Rightarrow> change list \<Rightarrow> database option" where
  "commit e db pending = (if commit_ok e then Some (foldl (flush e) db pending) else None)"

definition rollback :: "database \<Rightarrow> change list \<Rightarrow> database" where
  "rollback db pending = db"

section \<open>Queries\<close>

text \<open>
  \<^verbatim>\<open>Task.query.get\<close> looks a row up by primary key; \<^verbatim>\<open>filter_by(...).first()\<close> returns the first
  row whose column equals the given value, or \<^verbatim>\<open>None\<close>. On a string column the comparison
  is SQL \<open>=\<close>, that is, the collation of the database applied to the stored and the given
  string.
\<close>

definition query_get :: "task list \<Rightarrow> int \<Rightarrow> task option" where
  "query_get ts i = find (\<lambda>r. tid r = i) ts"

definition first_by_username ::
  "(pystr \<Rightarrow> pystr \<Rightarrow> bool) \<Rightarrow> user list \<Rightarrow> pystr \<Rightarrow> user option" where
  "first_by_username eq us n = find (\<lambda>r. eq (username r) n) us"

definition first_by_email ::
  "(pystr \<Rightarrow> pystr \<Rightarrow> bool) \<Rightarrow> user list \<Rightarrow> pystr \<Rightarrow> user option" where
  "first_by_email eq us m = find (\<lambda>r. eq (email r) m) us"

definition filter_by_user_id :: "task list \<Rightarrow> int \<Rightarrow> task list" where
  "filter_by_user_id ts u = filter (\<lambda>r. user_id r = u) ts"

text \<open>
  \<^verbatim>\<open>order_by(Task.created_at.desc())\<close>: rows with the larger timestamp first. Rows with equal
  timestamps are kept in table order.
\<close>

definition order_by_created_at_desc :: "task list \<Rightarrow> task list" where
  "order_by_created_at_desc ts = sort_key (\<lambda>r. - created_at r) ts"

section \<open>API routes\<close>

text \<open>
  Each route follows its source line by line. \<^verbatim>\<open>generate_password_hash\<close>,
  \<^verbatim>\<open>check_password_hash\<close> (werkzeug) and \<^verbatim>\<open>strftime\<close> are parameters.
\<close>

definition not_logged_in :: response where
  "not_logged_in =
     \<lparr>status = 401, success = False, message = Some (lit ''Not logged in.''),
      user_json = None, tasks_json = None\<rparr>"

definition api_register ::
  "(pystr \<Rightarrow> pystr) \<Rightarrow> env \<Rightarrow> database \<Rightarrow> json_body \<Rightarrow> response \<times> database" where
  "api_register generate_password_hash e db data =
     (let username = strip (get data ''username'' (lit ''''));
          email = strip (get data ''email'' (lit ''''));
          password = get data ''password'' (lit '''')
      in if username = [] \<or> email = [] \<or> password = [] then
           (jsonify ''All fields are required.'' False 400, db)
         else if length password < 6 then
           (jsonify ''Password must be at least 6 characters.'' False 400, db)
         else if first_by_username (collation db) (users db) username \<noteq> None then
           (jsonify ''Username already taken.'' False 409, db)
         else if first_by_email (collation db) (users db) email \<noteq> None then
           (jsonify ''Email already registered.'' False 409, db)
         else
           (let pending = [InsertUser username email (generate_password_hash password)]
            in case commit e db pending of
                 Some db' \<Rightarrow> (jsonify ''Registration successful!'' True 201, db')
               | None \<Rightarrow> (jsonify ''Server error.'' False 500, rollback db pending)))"

definition api_login ::
  "(pystr \<Rightarrow> pystr \<Rightarrow> bool) \<Rightarrow> database \<Rightarrow> session \<Rightarrow> json_body \<Rightarrow> response \<times> session" where
  "api_login check_password_hash db sess data =
     (let username = strip (get data ''username'' (lit ''''));
          password = get data ''password'' (lit '''')
      in case first_by_username (collation db) (users db) username of
           None \<Rightarrow> (jsonify ''Invalid username or password.'' False 401, sess)
         | Some u \<Rightarrow>
             if check_password_hash (password_hash u) password then
               (\<lparr>status = 200, success = True,
                 message = Some (lit ''Welcome back, '' @ user.username u @ lit ''!''),
                 user_json = Some (uid u, user.username u, user.email u), tasks_json = None\<rparr>,
                sess\<lparr>sess_user_id := Some (uid u), sess_username := Some (user.username u)\<rparr>)
             else (jsonify ''Invalid username or password.'' False 401, sess))"

definition task_to_json :: "(int \<Rightarrow> pystr) \<Rightarrow> task \<Rightarrow> task_json" where
  "task_to_json strftime r =
     \<lparr>j_id = tid r, j_title = title r,
      j_content = (if content r = [] then lit '''' else content r),
      j_done = is_done r, j_created_at = strftime (created_at r), j_user_id = user_id r\<rparr>"

definition api_get_tasks :: "(int \<Rightarrow> pystr) \<Rightarrow> database \<Rightarrow> session \<Rightarrow> response" where
  "api_get_tasks strftime db sess =
     (case sess_user_id sess of
        None \<Rightarrow> not_logged_in
      | Some u \<Rightarrow>
          (let rows = order_by_created_at_desc (filter_by_user_id (tasks db) u)
           in \<lparr>status = 200, success = True, message = None, user_json = None,
               tasks_json = Some (map (task_to_json strftime) rows)\<rparr>))"

definition api_create_task ::
  "env \<Rightarrow> database \<Rightarrow> session \<Rightarrow> json_body \<Rightarrow> response \<times> database" where
  "api_create_task e db sess data =
     (case sess_user_id sess of
        None \<Rightarrow> (not_logged_in, db)
      | Some u \<Rightarrow>
          (let title = strip (get data ''title'' (lit ''''));
               content = strip (get data ''content'' (lit ''''))
           in if title = [] then (jsonify ''Task title cannot be empty.'' False 400, db)
              else
                (let pending = [InsertTask title content u]
                 in case commit e db pending of
                      Some db' \<Rightarrow> (jsonify ''Task created!'' True 201, db')
                    | None \<Rightarrow> (jsonify ''Server error.'' False 500, rollback db pending))))"

definition api_update_task ::
  "env \<Rightarrow> database \<Rightarrow> session \<Rightarrow> int \<Rightarrow> json_body \<Rightarrow> response \<times> database" where
  "api_update_task e db sess task_id data =
     (case sess_user_id sess of
        None \<Rightarrow> (not_logged_in, db)
      | Some u \<Rightarrow>
          (case query_get (tasks db) task_id of
             None \<Rightarrow> (jsonify ''Task not found.'' False 404, db)
           | Some task \<Rightarrow>
               if user_id task \<noteq> u then (jsonify ''Task not found.'' False 404, db)
               else
                 (let new_title = strip (get data ''title'' (lit ''''));
                      new_content = strip (get data ''content'' (lit ''''))
                  in if new_title = [] then
                       (jsonify ''Task title cannot be empty.'' False 400, db)
                     else
                       (let pending = [SetTitle (tid task) new_title,
                                       SetContent (tid task) new_content]
                        in case commit e db pending of
                             Some db' \<Rightarrow> (jsonify ''Task updated!'' True 200, db')
                           | None \<Rightarrow>
                               (jsonify ''Server error.'' False 500, rollback db pending)))))"

definition api_delete_task ::
  "env \<Rightarrow> database \<Rightarrow> session \<Rightarrow> int \<Rightarrow> response \<times> database" where
  "api_delete_task e db sess task_id =
     (case sess_user_id sess of
        None \<Rightarrow> (not_logged_in, db)
      | Some u \<Rightarrow>
          (case query_get (tasks db) task_id of
             None \<Rightarrow> (jsonify ''Task not found.'' False 404, db)
           | Some task \<Rightarrow>
               if user_id task \<noteq> u then (jsonify ''Task not found.'' False 404, db)
               else
                 (let pending = [DeleteTask (tid task)]
                  in case commit e db pending of
                       Some db' \<Rightarrow> (jsonify ''Task deleted.'' True 200, db')
                     | None \<Rightarrow> (jsonify ''Server error.'' False 500, rollback db pending))))"

definition api_toggle_task ::
  "env \<Rightarrow> database \<Rightarrow> session \<Rightarrow> int \<Rightarrow> response \<times> database" where
  "api_toggle_task e db sess task_id =
     (case sess_user_id sess of
        None \<Rightarrow> (not_logged_in, db)
      | Some u \<Rightarrow>
          (case query_get (tasks db) task_id of
             None \<Rightarrow> (jsonify ''Task not found.'' False 404, db)
           | Some task \<Rightarrow>
               if user_id task \<noteq> u then (jsonify ''Task not found.'' False 404, db)
               else
                 (let pending = [SetDone (tid task) (\<not> is_done task)]
                  in case commit e db pending of
                       Some db' \<Rightarrow>
                         (jsonify
                            (if \<not> is_done task then ''Task marked as done.''
                             else ''Task marked as not done.'') True 200, db')
                     | None \<Rightarrow> (jsonify ''Server error.'' False 500, rollback db pending))))"

section \<open>Sample data\<close>

text \<open>
  Two users, one task of the first user, sessions, request bodies and surroundings, for
  evaluating the routes on concrete requests. \<open>sample_db\<close> compares strings exactly;
  \<open>folding_db\<close> holds the same rows under a collation that ignores the case of ASCII
  letters. \<open>sample_hash\<close> and \<open>sample_check\<close> stand in for \<^verbatim>\<open>generate_password_hash\<close> and
  \<^verbatim>\<open>check_password_hash\<close>, which the routes take as parameters.
\<close>

definition alice :: user where
  "alice = \<lparr>uid = 1, username = lit ''alice'', email = lit ''a@x.com'',
             password_hash = lit ''h:secret1'', u_created_at = 0\<rparr>"

definition bob :: user where
  "bob = \<lparr>uid = 2, username = lit ''bob'', email = lit ''b@x.com'',
           password_hash = lit ''h:hunter22'', u_created_at = 1\<rparr>"

definition milk :: task where
  "milk = \<lparr>tid = 1, title = lit ''buy milk'', content = lit ''two litres'', is_done = False,
            created_at = 10, user_id = 1\<rparr>"

definition sample_db :: database where
  "sample_db = \<lparr>users = [alice, bob], tasks = [milk], collation = (=)\<rparr>"

definition ascii_lower :: "nat \<Rightarrow> nat" where
  "ascii_lower c = (if 65 \<le> c \<and> c \<le> 90 then c + 32 else c)"

definition ascii_ci :: "pystr \<Rightarrow> pystr \<Rightarrow> bool" where
  "ascii_ci a b \<longleftrightarrow> map ascii_lower a = map ascii_lower b"

definition folding_db :: database where
  "folding_db = \<lparr>users = [alice, bob], tasks = [milk], collation = ascii_ci\<rparr>"

definition session_of :: "user \<Rightarrow> session" where
  "session_of u = \<lparr>sess_user_id = Some (uid u), sess_username = Some (username u)\<rparr>"

definition sample_env :: env where
  "sample_env = \<lparr>now = 20, new_id = 2, commit_ok = True\<rparr>"

definition failing_env :: env where
  "failing_env = \<lparr>now = 30, new_id = 3, commit_ok = False\<rparr>"

definition sample_hash :: "pystr \<Rightarrow> pystr" where
  "sample_hash p = lit ''h:'' @ p"

definition carol_form :: json_body where
  "carol_form = [lit ''username'' \<mapsto> lit ''carol'', lit ''email'' \<mapsto> lit ''c@x.com'',
                 lit ''password'' \<mapsto> lit ''secret3'']"

definition bread_form :: json_body where
  "bread_form = [lit ''title'' \<mapsto> lit '' buy bread '', lit ''content'' \<mapsto> lit ''rye'']"


definition sample_check :: "pystr \<Rightarrow> pystr \<Rightarrow> bool" where
  "sample_check h p \<longleftrightarrow> h = sample_hash p"

definition anonymous :: session where
  "anonymous = \<lparr>sess_user_id = None, sess_username = None\<rparr>"

definition credentials :: "string \<Rightarrow> string \<Rightarrow> json_body" where
  "credentials n p = [lit ''username'' \<mapsto> lit n, lit ''password'' \<mapsto> lit p]"

definition sample_strftime :: "int \<Rightarrow> pystr" where
  "sample_strftime t = lit ''1970-01-01T00:00:00''"

definition titled :: "string \<Rightarrow> json_body" where
  "titled t = [lit ''title'' \<mapsto> lit t]"

definition env_at :: "int \<Rightarrow> int \<Rightarrow> env" where
  "env_at t i = \<lparr>now = t, new_id = i, commit_ok = True\<rparr>"

lemmas sample_defs =
  alice_def bob_def milk_def sample_db_def session_of_def sample_env_def failing_env_def
  sample_hash_def carol_form_def bread_form_def folding_db_def ascii_ci_def ascii_lower_def

lemmas string_defs = lit_def strip_def lstrip_def rstrip_def isspace_def get_def

section \<open>Trimming\<close>







section \<open>Looking a task up\<close>

lemma query_get_SomeD: "query_get ts i = Some t \<Longrightarrow> tid t = i \<and> t \<in> set ts"
  by (auto simp: query_get_def find_Some_iff)

lemma query_get_map:
  assumes "\<And>r. tid (f r) = tid r"
  shows "query_get (map (\<lambda>r. if tid r = i then f r else r) ts) i = map_option f (query_get ts i)"
  using assms by (induction ts) (auto simp: query_get_def)

lemma query_get_unique:
  assumes "distinct (map tid ts)" and "query_get ts i = Some t" and "r \<in> set ts" and "tid r = i"
  shows "r = t"
proof -
  have "t \<in> set ts" and "tid t = i"
    using assms(2) by (auto dest: query_get_SomeD)
  moreover have "inj_on tid (set ts)"
    using assms(1) by (simp add: distinct_map)
  ultimately show ?thesis
    using assms(3,4) by (auto dest: inj_onD)
qed

section \<open>Looking a user up\<close>

lemma first_by_username_None:
  "first_by_username eq us n = None \<longleftrightarrow> (\<forall>r\<in>set us. \<not> eq (username r) n)"
  by (auto simp: first_by_username_def find_None_iff)


lemma first_by_username_SomeD:
  "first_by_username eq us n = Some r \<Longrightarrow> r \<in> set us \<and> eq (username r) n"
  by (auto simp: first_by_username_def find_Some_iff)

section \<open>Ordering of a listing\<close>

lemma order_by_mset: "mset (order_by_created_at_desc ts) = mset ts"
  by (simp add: order_by_created_at_desc_def)

lemma order_by_set: "set (order_by_created_at_desc ts) = set ts"
  by (simp add: order_by_created_at_desc_def)

lemma order_by_sorted:
  "sorted_wrt (\<lambda>a b. created_at b \<le> created_at a) (order_by_created_at_desc ts)"
proof -
  have "sorted (map (\<lambda>r. - created_at r) (order_by_created_at_desc ts))"
    by (simp add: order_by_created_at_desc_def)
  then show ?thesis
    by (simp add: sorted_map)
qed

lemma later_listed_before:
  assumes srt: "sorted_wrt (\<lambda>a b. created_at b \<le> created_at a) rows"
    and x: "x \<in> set rows" and y: "y \<in> set rows"
    and lt: "created_at x < created_at y"
  shows "y \<in> set (takeWhile (\<lambda>r. r \<noteq> x) rows)"
proof (rule ccontr)
  assume not_before: "y \<notin> set (takeWhile (\<lambda>r. r \<noteq> x) rows)"
  let ?pre = "takeWhile (\<lambda>r. r \<noteq> x) rows" and ?suf = "dropWhile (\<lambda>r. r \<noteq> x) rows"
  have split: "rows = ?pre @ ?suf"
    by simp
  have "?suf \<noteq> []"
    using x by (auto simp: dropWhile_eq_Nil_conv)
  moreover from this have "hd ?suf = x"
    using hd_dropWhile [of "\<lambda>r. r \<noteq> x" rows] by simp
  ultimately obtain rest where suf: "?suf = x # rest"
    by (cases ?suf) auto
  have "y \<in> set ?pre \<union> set ?suf"
    using y split by (metis set_append)
  then have "y \<in> set rest"
    using not_before suf lt by auto
  moreover have "sorted_wrt (\<lambda>a b. created_at b \<le> created_at a) (x # rest)"
    using srt split suf by (metis sorted_wrt_append)
  ultimately have "created_at y \<le> created_at x"
    by simp
  then show False
    using lt by simp
qed

lemma create_committed:
  assumes "sess_user_id sess = Some u" and "strip (get data ''title'' (lit '''')) \<noteq> []"
    and "commit_ok e"
  shows "api_create_task e db sess data =
     (jsonify ''Task created!'' True 201,
      db\<lparr>tasks := tasks db @
        [\<lparr>tid = new_id e, title = strip (get data ''title'' (lit '''')),
          content = strip (get data ''content'' (lit '''')), is_done = False,
          created_at = now e, user_id = u\<rparr>]\<rparr>)"
  using assms by (simp add: api_create_task_def commit_def)

lemma api_get_tasks_rows:
  assumes "sess_user_id sess = Some u"
  shows "api_get_tasks strftime db sess =
     \<lparr>status = 200, success = True, message = None, user_json = None,
      tasks_json = Some (map (task_to_json strftime)
        (order_by_created_at_desc (filter_by_user_id (tasks db) u)))\<rparr>"
  using assms by (simp add: api_get_tasks_def)

section \<open>Ownership and existence\<close>

text \<open>
  Claim C1. For a caller with a session, when no task has the given id, or the task with that id
  belongs to another user, \<^verbatim>\<open>api_update_task\<close>, \<^verbatim>\<open>api_toggle_task\<close> and \<^verbatim>\<open>api_delete_task\<close> each
  answer with one and the same response, status 404 and message "Task not found.", whichever of
  the two cases holds, and the database is returned as it was.
\<close>

theorem not_found_uniform:
  assumes "sess_user_id sess = Some u"
    and "query_get (tasks db) task_id = None \<or>
         (\<exists>t. query_get (tasks db) task_id = Some t \<and> user_id t \<noteq> u)"
  shows "api_update_task e db sess task_id data = (jsonify ''Task not found.'' False 404, db) \<and>
         api_toggle_task e db sess task_id = (jsonify ''Task not found.'' False 404, db) \<and>
         api_delete_task e db sess task_id = (jsonify ''Task not found.'' False 404, db) \<and>
         status (jsonify ''Task not found.'' False 404) = 404 \<and>
         \<not> success (jsonify ''Task not found.'' False 404)"
  using assms
  by (auto simp: api_update_task_def api_toggle_task_def api_delete_task_def jsonify_def)

theorem not_found_uniform_witness:
  "sess_user_id (session_of bob) = Some 2 \<and>
   query_get (tasks sample_db) 7 = None \<and>
   query_get (tasks sample_db) 1 = Some milk \<and> user_id milk \<noteq> 2 \<and>
   api_update_task sample_env sample_db (session_of bob) 7 [lit ''title'' \<mapsto> lit ''x''] =
     (jsonify ''Task not found.'' False 404, sample_db) \<and>
   api_update_task sample_env sample_db (session_of bob) 1 [lit ''title'' \<mapsto> lit ''x''] =
     (jsonify ''Task not found.'' False 404, sample_db) \<and>
   api_toggle_task sample_env sample_db (session_of bob) 7 =
     api_toggle_task sample_env sample_db (session_of bob) 1 \<and>
   api_delete_task sample_env sample_db (session_of bob) 7 =
     api_delete_task sample_env sample_db (session_of bob) 1"
proof -
  have auth: "sess_user_id (session_of bob) = Some 2"
    by (simp add: sample_defs)
  have missing: "query_get (tasks sample_db) 7 = None"
    by (simp add: sample_defs query_get_def)
  have foreign: "query_get (tasks sample_db) 1 = Some milk \<and> user_id milk \<noteq> 2"
    by (simp add: sample_defs query_get_def)
  from missing have h1: "query_get (tasks sample_db) 7 = None \<or>
      (\<exists>t. query_get (tasks sample_db) 7 = Some t \<and> user_id t \<noteq> 2)"
    by simp
  from foreign have h2: "query_get (tasks sample_db) 1 = None \<or>
      (\<exists>t. query_get (tasks sample_db) 1 = Some t \<and> user_id t \<noteq> 2)"
    by simp
  show ?thesis
    using auth missing foreign not_found_uniform [OF auth h1] not_found_uniform [OF auth h2]
    by simp
qed

section \<open>Toggling\<close>

text \<open>
  Claim C4. For a task owned by the caller, two toggles in a row (each committed) both answer 200;
  after the first the stored completion flag is the negation of the original one, and after the
  second the stored task is the original task again, so the flag has its original value. When
  task ids are unique, as the primary key makes them, the whole database is as before.
\<close>

theorem toggle_twice:
  assumes "sess_user_id sess = Some u"
    and "query_get (tasks db) task_id = Some t" and "user_id t = u"
    and "commit_ok e1" and "commit_ok e2"
  shows "status (fst (api_toggle_task e1 db sess task_id)) = 200 \<and>
         query_get (tasks (snd (api_toggle_task e1 db sess task_id))) task_id =
           Some (t\<lparr>is_done := \<not> is_done t\<rparr>) \<and>
         status (fst (api_toggle_task e2 (snd (api_toggle_task e1 db sess task_id)) sess task_id))
           = 200 \<and>
         query_get (tasks (snd (api_toggle_task e2 (snd (api_toggle_task e1 db sess task_id))
           sess task_id))) task_id = Some t \<and>
         (distinct (map tid (tasks db)) \<longrightarrow>
            snd (api_toggle_task e2 (snd (api_toggle_task e1 db sess task_id)) sess task_id) = db)"
proof -
  let ?flip = "\<lambda>b r. if tid r = task_id then r\<lparr>is_done := b\<rparr> else r"
  let ?db1 = "db\<lparr>tasks := map (?flip (\<not> is_done t)) (tasks db)\<rparr>"
  let ?db2 = "?db1\<lparr>tasks := map (?flip (is_done t)) (tasks ?db1)\<rparr>"
  have id: "tid t = task_id"
    using assms(2) by (simp add: query_get_SomeD)
  have first: "api_toggle_task e1 db sess task_id =
      (jsonify (if \<not> is_done t then ''Task marked as done.'' else ''Task marked as not done.'')
         True 200, ?db1)"
    using assms id by (simp add: api_toggle_task_def commit_def)
  have t1: "query_get (tasks ?db1) task_id = Some (t\<lparr>is_done := \<not> is_done t\<rparr>)"
    using assms(2) by (simp add: query_get_map)
  have second: "api_toggle_task e2 ?db1 sess task_id =
      (jsonify (if is_done t then ''Task marked as done.'' else ''Task marked as not done.'')
         True 200, ?db2)"
    using assms(1,3,5) id t1 by (simp add: api_toggle_task_def commit_def)
  have t2: "query_get (tasks ?db2) task_id = Some t"
    using assms(2) by (simp add: query_get_map del: map_map)
  have restored: "?db2 = db" if "distinct (map tid (tasks db))"
  proof -
    have "r \<in> set (tasks db) \<Longrightarrow> ?flip (is_done t) (?flip (\<not> is_done t) r) = r" for r
      using query_get_unique [OF that assms(2)] by auto
    then have "map (?flip (is_done t)) (map (?flip (\<not> is_done t)) (tasks db)) = tasks db"
      by (simp add: map_idI)
    then show ?thesis
      by simp
  qed
  show ?thesis
    using first second t1 t2 restored by (simp add: jsonify_def)
qed

theorem toggle_twice_witness:
  "sess_user_id (session_of alice) = Some 1 \<and>
   query_get (tasks sample_db) 1 = Some milk \<and> user_id milk = 1 \<and>
   commit_ok sample_env \<and> distinct (map tid (tasks sample_db)) \<and>
   query_get (tasks (snd (api_toggle_task sample_env sample_db (session_of alice) 1))) 1 =
     Some (milk\<lparr>is_done := True\<rparr>) \<and>
   snd (api_toggle_task sample_env
          (snd (api_toggle_task sample_env sample_db (session_of alice) 1))
          (session_of alice) 1) = sample_db"
proof -
  have auth: "sess_user_id (session_of alice) = Some 1"
    by (simp add: sample_defs)
  have found: "query_get (tasks sample_db) 1 = Some milk"
    by (simp add: sample_defs query_get_def)
  have own: "user_id milk = 1"
    by (simp add: sample_defs)
  have ok: "commit_ok sample_env"
    by (simp add: sample_defs)
  have uniq: "distinct (map tid (tasks sample_db))"
    by (simp add: sample_defs)
  have flag: "\<not> is_done milk"
    by (simp add: sample_defs)
  show ?thesis
    using auth found own ok uniq flag toggle_twice [OF auth found own ok ok]
    by simp
qed

section \<open>Updating\<close>



text \<open>
  Claim C10. Whenever \<^verbatim>\<open>api_update_task\<close> answers 200, the task it looked up is stored afterwards
  with the trimmed supplied title and the trimmed supplied content; when the body has no
  \<^verbatim>\<open>content\<close> field the stored content is the empty string, whatever it was before.
\<close>

theorem update_overwrites_content:
  assumes "status (fst (api_update_task e db sess task_id data)) = 200"
  shows "\<exists>t. query_get (tasks db) task_id = Some t \<and>
           query_get (tasks (snd (api_update_task e db sess task_id data))) task_id =
             Some (t\<lparr>title := strip (get data ''title'' (lit '''')),
                     content := strip (get data ''content'' (lit ''''))\<rparr>) \<and>
           (data (lit ''content'') = None \<longrightarrow>
              map_option content
                (query_get (tasks (snd (api_update_task e db sess task_id data))) task_id) =
              Some [])"
proof -
  from assms obtain u t where auth: "sess_user_id sess = Some u"
    and t: "query_get (tasks db) task_id = Some t" and own: "user_id t = u"
    and ttl: "strip (get data ''title'' (lit '''')) \<noteq> []" and ok: "commit_ok e"
    by (auto simp: api_update_task_def jsonify_def not_logged_in_def commit_def Let_def
        split: option.splits if_splits)
  have id: "tid t = task_id"
    using t by (simp add: query_get_SomeD)
  have "query_get (tasks (snd (api_update_task e db sess task_id data))) task_id =
          Some (t\<lparr>title := strip (get data ''title'' (lit '''')),
                  content := strip (get data ''content'' (lit ''''))\<rparr>)"
    using auth t own ttl ok id
    by (simp add: api_update_task_def commit_def Let_def query_get_map del: map_map)
  moreover have "data (lit ''content'') = None \<Longrightarrow> strip (get data ''content'' (lit '''')) = []"
    by (simp add: get_def lit_def strip_def lstrip_def rstrip_def)
  ultimately show ?thesis
    using t by simp
qed

theorem update_overwrites_content_witness:
  "status (fst (api_update_task sample_env sample_db (session_of alice) 1
      [lit ''title'' \<mapsto> lit '' buy bread ''])) = 200 \<and>
   query_get (tasks sample_db) 1 = Some milk \<and> content milk = lit ''two litres'' \<and>
   query_get (tasks (snd (api_update_task sample_env sample_db (session_of alice) 1
      [lit ''title'' \<mapsto> lit '' buy bread '']))) 1 =
     Some (milk\<lparr>title := lit ''buy bread'', content := []\<rparr>)"
proof -
  let ?data = "[lit ''title'' \<mapsto> lit '' buy bread '']"
  have ok: "status (fst (api_update_task sample_env sample_db (session_of alice) 1 ?data)) = 200"
    by (simp add: api_update_task_def sample_defs query_get_def string_defs commit_def
        jsonify_def)
  have found: "query_get (tasks sample_db) 1 = Some milk"
    by (simp add: sample_defs query_get_def)
  have ttl: "strip (get ?data ''title'' (lit '''')) = lit ''buy bread''"
    by (simp add: string_defs)
  have cnt: "strip (get ?data ''content'' (lit '''')) = []"
    by (simp add: string_defs)
  show ?thesis
    using ok found ttl cnt update_overwrites_content [OF ok]
    by (simp add: milk_def)
qed

section \<open>Creating\<close>



section \<open>Failure of the commit\<close>

text \<open>
  Claim C8. When \<^verbatim>\<open>db.session.commit()\<close> raises, each of \<^verbatim>\<open>api_register\<close>, \<^verbatim>\<open>api_create_task\<close>,
  \<^verbatim>\<open>api_update_task\<close>, \<^verbatim>\<open>api_toggle_task\<close> and \<^verbatim>\<open>api_delete_task\<close> returns the database it was
  given, users and tasks alike, and every request that would have succeeded with a working
  commit is answered with status 500 and "Server error.".
\<close>

theorem commit_failure_atomic:
  assumes "\<not> commit_ok e"
  shows "snd (api_register g e db data) = db \<and>
         snd (api_create_task e db sess data) = db \<and>
         snd (api_update_task e db sess task_id data) = db \<and>
         snd (api_toggle_task e db sess task_id) = db \<and>
         snd (api_delete_task e db sess task_id) = db \<and>
         (success (fst (api_register g (e\<lparr>commit_ok := True\<rparr>) db data)) \<longrightarrow>
            fst (api_register g e db data) = jsonify ''Server error.'' False 500) \<and>
         (success (fst (api_create_task (e\<lparr>commit_ok := True\<rparr>) db sess data)) \<longrightarrow>
            fst (api_create_task e db sess data) = jsonify ''Server error.'' False 500) \<and>
         (success (fst (api_update_task (e\<lparr>commit_ok := True\<rparr>) db sess task_id data)) \<longrightarrow>
            fst (api_update_task e db sess task_id data) = jsonify ''Server error.'' False 500) \<and>
         (success (fst (api_toggle_task (e\<lparr>commit_ok := True\<rparr>) db sess task_id)) \<longrightarrow>
            fst (api_toggle_task e db sess task_id) = jsonify ''Server error.'' False 500) \<and>
         (success (fst (api_delete_task (e\<lparr>commit_ok := True\<rparr>) db sess task_id)) \<longrightarrow>
            fst (api_delete_task e db sess task_id) = jsonify ''Server error.'' False 500) \<and>
         status (jsonify ''Server error.'' False 500) = 500"
proof -
  have fail: "commit e db pending = None" for pending
    using assms by (simp add: commit_def)
  have reg: "snd (api_register g e db data) = db"
    by (simp add: api_register_def Let_def fail rollback_def)
  have cre: "snd (api_create_task e db sess data) = db"
    by (simp add: api_create_task_def Let_def fail rollback_def split: option.split)
  have upd: "snd (api_update_task e db sess task_id data) = db"
    by (simp add: api_update_task_def Let_def fail rollback_def split: option.split)
  have tog: "snd (api_toggle_task e db sess task_id) = db"
    by (simp add: api_toggle_task_def Let_def fail rollback_def split: option.split)
  have del: "snd (api_delete_task e db sess task_id) = db"
    by (simp add: api_delete_task_def Let_def fail rollback_def split: option.split)
  have reg5: "fst (api_register g e db data) = jsonify ''Server error.'' False 500"
    if "success (fst (api_register g (e\<lparr>commit_ok := True\<rparr>) db data))"
    using that
    by (simp add: api_register_def Let_def fail jsonify_def split: if_splits)
  have cre5: "fst (api_create_task e db sess data) = jsonify ''Server error.'' False 500"
    if "success (fst (api_create_task (e\<lparr>commit_ok := True\<rparr>) db sess data))"
    using that
    by (simp add: api_create_task_def Let_def fail jsonify_def not_logged_in_def
        split: if_splits option.splits)
  have upd5: "fst (api_update_task e db sess task_id data) = jsonify ''Server error.'' False 500"
    if "success (fst (api_update_task (e\<lparr>commit_ok := True\<rparr>) db sess task_id data))"
    using that
    by (simp add: api_update_task_def Let_def fail jsonify_def not_logged_in_def
        split: if_splits option.splits)
  have tog5: "fst (api_toggle_task e db sess task_id) = jsonify ''Server error.'' False 500"
    if "success (fst (api_toggle_task (e\<lparr>commit_ok := True\<rparr>) db sess task_id))"
    using that
    by (simp add: api_toggle_task_def Let_def fail jsonify_def not_logged_in_def
        split: if_splits option.splits)
  have del5: "fst (api_delete_task e db sess task_id) = jsonify ''Server error.'' False 500"
    if "success (fst (api_delete_task (e\<lparr>commit_ok := True\<rparr>) db sess task_id))"
    using that
    by (simp add: api_delete_task_def Let_def fail jsonify_def not_logged_in_def
        split: if_splits option.splits)
  have "status (jsonify ''Server error.'' False 500) = 500"
    by (simp add: jsonify_def)
  with reg cre upd tog del reg5 cre5 upd5 tog5 del5 show ?thesis
    by blast
qed

theorem commit_failure_atomic_witness:
  "\<not> commit_ok failing_env \<and>
   api_register sample_hash failing_env sample_db carol_form =
     (jsonify ''Server error.'' False 500, sample_db) \<and>
   api_create_task failing_env sample_db (session_of alice) bread_form =
     (jsonify ''Server error.'' False 500, sample_db) \<and>
   api_update_task failing_env sample_db (session_of alice) 1 bread_form =
     (jsonify ''Server error.'' False 500, sample_db) \<and>
   api_toggle_task failing_env sample_db (session_of alice) 1 =
     (jsonify ''Server error.'' False 500, sample_db) \<and>
   api_delete_task failing_env sample_db (session_of alice) 1 =
     (jsonify ''Server error.'' False 500, sample_db)"
proof -
  let ?ok = "failing_env\<lparr>commit_ok := True\<rparr>"
  have fail: "\<not> commit_ok failing_env"
    by (simp add: sample_defs)
  have reg: "success (fst (api_register sample_hash ?ok sample_db carol_form))"
    by (simp add: api_register_def sample_defs string_defs first_by_username_def first_by_email_def
        commit_def jsonify_def)
  have cre: "success (fst (api_create_task ?ok sample_db (session_of alice) bread_form))"
    by (simp add: api_create_task_def sample_defs string_defs commit_def jsonify_def)
  have upd: "success (fst (api_update_task ?ok sample_db (session_of alice) 1 bread_form))"
    by (simp add: api_update_task_def sample_defs string_defs commit_def jsonify_def
        query_get_def)
  have tog: "success (fst (api_toggle_task ?ok sample_db (session_of alice) 1))"
    by (simp add: api_toggle_task_def sample_defs commit_def jsonify_def query_get_def)
  have del: "success (fst (api_delete_task ?ok sample_db (session_of alice) 1))"
    by (simp add: api_delete_task_def sample_defs commit_def jsonify_def query_get_def)
  show ?thesis
    using fail reg cre upd tog del
      commit_failure_atomic [OF fail, where g = sample_hash and db = sample_db
        and data = carol_form and sess = "session_of alice" and task_id = 1]
      commit_failure_atomic [OF fail, where g = sample_hash and db = sample_db
        and data = bread_form and sess = "session_of alice" and task_id = 1]
    by (simp add: prod_eq_iff)
qed

section \<open>Registration\<close>



section \<open>Login\<close>

text \<open>
  Claim C6. A login attempt whose trimmed username matches the username of no stored user, and a
  login attempt whose trimmed username is found but whose password fails
  \<^verbatim>\<open>check_password_hash\<close>, get the same response, status 401 with
  "Invalid username or password.", and neither changes the session. This holds for every
  collation of the database.
\<close>

theorem login_failure_uniform:
  assumes "\<forall>r\<in>set (users db_a).
      \<not> collation db_a (username r) (strip (get data_a ''username'' (lit '''')))"
    and "first_by_username (collation db_b) (users db_b)
      (strip (get data_b ''username'' (lit ''''))) = Some usr"
    and "\<not> chk (password_hash usr) (get data_b ''password'' (lit ''''))"
  shows "fst (api_login chk db_a sess_a data_a) = fst (api_login chk db_b sess_b data_b) \<and>
         fst (api_login chk db_a sess_a data_a) =
           jsonify ''Invalid username or password.'' False 401 \<and>
         status (fst (api_login chk db_a sess_a data_a)) = 401 \<and>
         snd (api_login chk db_a sess_a data_a) = sess_a \<and>
         snd (api_login chk db_b sess_b data_b) = sess_b"
proof -
  have "first_by_username (collation db_a) (users db_a)
      (strip (get data_a ''username'' (lit ''''))) = None"
    using assms(1) by (simp add: first_by_username_None)
  then have 1: "api_login chk db_a sess_a data_a =
      (jsonify ''Invalid username or password.'' False 401, sess_a)"
    by (simp add: api_login_def)
  have 2: "api_login chk db_b sess_b data_b =
      (jsonify ''Invalid username or password.'' False 401, sess_b)"
    using assms(2,3) by (simp add: api_login_def)
  show ?thesis
    by (simp add: 1 2 jsonify_def)
qed

theorem login_failure_uniform_witness:
  "strip (get (credentials ''zed'' ''secret1'') ''username'' (lit ''''))
     \<notin> set (map username (users sample_db)) \<and>
   first_by_username (collation sample_db) (users sample_db)
     (strip (get (credentials ''alice'' ''guess99'') ''username'' (lit ''''))) = Some alice \<and>
   \<not> sample_check (password_hash alice)
     (get (credentials ''alice'' ''guess99'') ''password'' (lit '''')) \<and>
   fst (api_login sample_check sample_db anonymous (credentials ''zed'' ''secret1'')) =
   fst (api_login sample_check sample_db anonymous (credentials ''alice'' ''guess99''))"
proof -
  have 0: "strip (get (credentials ''zed'' ''secret1'') ''username'' (lit ''''))
      \<notin> set (map username (users sample_db))"
    by (simp add: sample_defs credentials_def string_defs)
  have 1: "\<forall>r\<in>set (users sample_db).
      \<not> collation sample_db (username r)
        (strip (get (credentials ''zed'' ''secret1'') ''username'' (lit '''')))"
    by (simp add: sample_defs credentials_def string_defs)
  have 2: "first_by_username (collation sample_db) (users sample_db)
      (strip (get (credentials ''alice'' ''guess99'') ''username'' (lit ''''))) = Some alice"
    by (simp add: sample_defs credentials_def string_defs first_by_username_def)
  have 3: "\<not> sample_check (password_hash alice)
      (get (credentials ''alice'' ''guess99'') ''password'' (lit ''''))"
    by (simp add: sample_defs credentials_def string_defs sample_check_def)
  show ?thesis
    using 0 1 2 3
      login_failure_uniform [where chk = sample_check and db_a = sample_db
        and db_b = sample_db and data_a = "credentials ''zed'' ''secret1''"
        and data_b = "credentials ''alice'' ''guess99''" and usr = alice
        and sess_a = anonymous and sess_b = anonymous]
    by blast
qed

text \<open>
  Claim C9, as stated, fails twice over. \<^verbatim>\<open>api_login\<close> trims the supplied username before the
  lookup, so the supplied string " alice " logs in the user whose stored username is "alice".
  And the lookup compares with SQL \<open>=\<close> under the collation of the database: under one that
  ignores case, as the default of MySQL does, the supplied string "ALICE" logs in "alice" as
  well. In neither case is the stored username character-for-character the supplied string.
\<close>

theorem login_exact_match_counterexample:
  "status (fst (api_login sample_check sample_db anonymous (credentials '' alice '' ''secret1'')))
     = 200 \<and>
   snd (api_login sample_check sample_db anonymous (credentials '' alice '' ''secret1''))
     = session_of alice \<and>
   get (credentials '' alice '' ''secret1'') ''username'' (lit '''') = lit '' alice '' \<and>
   username alice = lit ''alice'' \<and>
   lit ''alice'' \<noteq> lit '' alice '' \<and>
   status (fst (api_login sample_check folding_db anonymous (credentials ''ALICE'' ''secret1'')))
     = 200 \<and>
   snd (api_login sample_check folding_db anonymous (credentials ''ALICE'' ''secret1''))
     = session_of alice \<and>
   strip (get (credentials ''ALICE'' ''secret1'') ''username'' (lit '''')) = lit ''ALICE'' \<and>
   lit ''alice'' \<noteq> lit ''ALICE''"
  by (simp add: api_login_def Let_def sample_defs credentials_def string_defs
      first_by_username_def sample_check_def anonymous_def)

text \<open>
  Claim C9, amended. \<^verbatim>\<open>api_login\<close> looks the user up by comparing the supplied username, with
  leading and trailing whitespace removed, with the stored usernames under the collation of the
  database: a login that answers 200 is that of a stored user whose username matches the trimmed
  supplied string under that collation and whose password hash verifies, and when no stored
  username matches it the answer is 401. When the collation is exact, the stored username of
  that user is character-for-character the trimmed supplied string.
\<close>

theorem login_uses_trimmed_username:
  "(status (fst (api_login chk db sess data)) = 200 \<longrightarrow>
      (\<exists>r\<in>set (users db).
         collation db (username r) (strip (get data ''username'' (lit ''''))) \<and>
         chk (password_hash r) (get data ''password'' (lit '''')) \<and>
         user_json (fst (api_login chk db sess data)) = Some (uid r, username r, email r) \<and>
         sess_user_id (snd (api_login chk db sess data)) = Some (uid r))) \<and>
   ((\<forall>r\<in>set (users db).
       \<not> collation db (username r) (strip (get data ''username'' (lit '''')))) \<longrightarrow>
      api_login chk db sess data = (jsonify ''Invalid username or password.'' False 401, sess)) \<and>
   (collation db = (=) \<and> status (fst (api_login chk db sess data)) = 200 \<longrightarrow>
      (\<exists>r\<in>set (users db).
         username r = strip (get data ''username'' (lit '''')) \<and>
         chk (password_hash r) (get data ''password'' (lit '''')) \<and>
         user_json (fst (api_login chk db sess data)) = Some (uid r, username r, email r) \<and>
         sess_user_id (snd (api_login chk db sess data)) = Some (uid r)))"
proof -
  let ?n = "strip (get data ''username'' (lit ''''))"
  have found: "\<exists>r\<in>set (users db).
         collation db (username r) ?n \<and>
         chk (password_hash r) (get data ''password'' (lit '''')) \<and>
         user_json (fst (api_login chk db sess data)) = Some (uid r, username r, email r) \<and>
         sess_user_id (snd (api_login chk db sess data)) = Some (uid r)"
    if ok: "status (fst (api_login chk db sess data)) = 200"
  proof (cases "first_by_username (collation db) (users db) ?n")
    case None
    then show ?thesis
      using ok by (simp add: api_login_def jsonify_def)
  next
    case (Some r)
    then have "r \<in> set (users db)" and "collation db (username r) ?n"
      by (auto dest: first_by_username_SomeD)
    moreover have "chk (password_hash r) (get data ''password'' (lit ''''))"
      using ok Some by (simp add: api_login_def jsonify_def split: if_splits)
    ultimately show ?thesis
      using Some by (auto simp: api_login_def)
  qed
  have refused: "api_login chk db sess data =
      (jsonify ''Invalid username or password.'' False 401, sess)"
    if "\<forall>r\<in>set (users db). \<not> collation db (username r) ?n"
  proof -
    have "first_by_username (collation db) (users db) ?n = None"
      using that by (simp add: first_by_username_None)
    then show ?thesis
      by (simp add: api_login_def)
  qed
  have exact: "\<exists>r\<in>set (users db).
         username r = ?n \<and>
         chk (password_hash r) (get data ''password'' (lit '''')) \<and>
         user_json (fst (api_login chk db sess data)) = Some (uid r, username r, email r) \<and>
         sess_user_id (snd (api_login chk db sess data)) = Some (uid r)"
    if "collation db = (=)" and "status (fst (api_login chk db sess data)) = 200"
    using found [OF that(2)] that(1) by simp
  from found refused exact show ?thesis
    by blast
qed

theorem login_uses_trimmed_username_witness:
  "status (fst (api_login sample_check sample_db anonymous (credentials '' alice '' ''secret1'')))
     = 200 \<and>
   collation sample_db = (=) \<and>
   (\<exists>r\<in>set (users sample_db). username r = lit ''alice'' \<and>
      sess_user_id (snd (api_login sample_check sample_db anonymous
        (credentials '' alice '' ''secret1''))) = Some (uid r)) \<and>
   lit ''zed'' \<notin> set (map username (users sample_db)) \<and>
   api_login sample_check sample_db anonymous (credentials ''zed'' ''secret1'') =
     (jsonify ''Invalid username or password.'' False 401, anonymous)"
proof -
  have ok: "status (fst (api_login sample_check sample_db anonymous
      (credentials '' alice '' ''secret1''))) = 200"
    by (simp add: api_login_def Let_def sample_defs credentials_def string_defs
        first_by_username_def sample_check_def)
  have exact: "collation sample_db = (=)"
    by (simp add: sample_defs)
  have a: "strip (get (credentials '' alice '' ''secret1'') ''username'' (lit '''')) = lit ''alice''"
    by (simp add: credentials_def string_defs)
  have z: "strip (get (credentials ''zed'' ''secret1'') ''username'' (lit '''')) = lit ''zed''"
    by (simp add: credentials_def string_defs)
  have none: "\<forall>r\<in>set (users sample_db). \<not> collation sample_db (username r) (lit ''zed'')"
    by (simp add: sample_defs lit_def)
  have absent: "lit ''zed'' \<notin> set (map username (users sample_db))"
    by (simp add: sample_defs lit_def)
  show ?thesis
    using ok exact none absent
      login_uses_trimmed_username [of sample_check sample_db anonymous
        "credentials '' alice '' ''secret1''"]
      login_uses_trimmed_username [of sample_check sample_db anonymous
        "credentials ''zed'' ''secret1''"]
    unfolding a z by blast
qed

section \<open>Listing\<close>

text \<open>
  Claim C2, as stated, fails in its last part: the listing is ordered by the stored timestamps,
  not by the order of creation. When the clock read for task Y is behind the one read for
  task X, Y created after X is listed after X.
\<close>

theorem list_creation_order_counterexample:
  "status (fst (api_create_task (env_at 20 2) sample_db (session_of alice) (titled ''X''))) = 201 \<and>
   status (fst (api_create_task (env_at 15 3)
     (snd (api_create_task (env_at 20 2) sample_db (session_of alice) (titled ''X'')))
     (session_of alice) (titled ''Y''))) = 201 \<and>
   map_option (map j_title)
     (tasks_json (api_get_tasks sample_strftime
        (snd (api_create_task (env_at 15 3)
          (snd (api_create_task (env_at 20 2) sample_db (session_of alice) (titled ''X'')))
          (session_of alice) (titled ''Y'')))
        (session_of alice))) = Some [lit ''X'', lit ''Y'', lit ''buy milk'']"
  by (simp add: api_create_task_def api_get_tasks_def sample_defs titled_def env_at_def
      string_defs commit_def jsonify_def filter_by_user_id_def order_by_created_at_desc_def
      task_to_json_def)

text \<open>
  Claim C2, amended. For a caller with a session, \<^verbatim>\<open>api_get_tasks\<close> answers 200 with exactly the
  tasks whose \<^verbatim>\<open>user_id\<close> is the caller's (as a multiset: no task of another user, none
  missing, none twice), ordered by \<^verbatim>\<open>created_at\<close> descending; of two tasks of the caller the
  one with the strictly later timestamp is listed before the other. In particular, after
  creating X and then Y for the same owner, Y is listed before X provided the timestamp of Y is
  strictly later than that of X.
\<close>

theorem list_owner_tasks_newest_first:
  assumes "sess_user_id sess = Some u"
  shows "(\<exists>rows.
            api_get_tasks strftime db sess =
              \<lparr>status = 200, success = True, message = None, user_json = None,
               tasks_json = Some (map (task_to_json strftime) rows)\<rparr> \<and>
            mset rows = mset (filter (\<lambda>r. user_id r = u) (tasks db)) \<and>
            sorted_wrt (\<lambda>a b. created_at b \<le> created_at a) rows \<and>
            (\<forall>x\<in>set (tasks db). \<forall>y\<in>set (tasks db).
               user_id x = u \<and> user_id y = u \<and> created_at x < created_at y \<longrightarrow>
               y \<in> set (takeWhile (\<lambda>r. r \<noteq> x) rows))) \<and>
         (strip (get data_x ''title'' (lit '''')) \<noteq> [] \<and>
          strip (get data_y ''title'' (lit '''')) \<noteq> [] \<and>
          commit_ok e_x \<and> commit_ok e_y \<and> now e_x < now e_y \<longrightarrow>
          (\<exists>rows x y.
             tasks (snd (api_create_task e_y (snd (api_create_task e_x db sess data_x)) sess
               data_y)) = tasks db @ [x, y] \<and>
             title x = strip (get data_x ''title'' (lit '''')) \<and>
             title y = strip (get data_y ''title'' (lit '''')) \<and>
             tasks_json (api_get_tasks strftime
               (snd (api_create_task e_y (snd (api_create_task e_x db sess data_x)) sess data_y))
               sess) = Some (map (task_to_json strftime) rows) \<and>
             x \<in> set rows \<and> y \<in> set (takeWhile (\<lambda>r. r \<noteq> x) rows)))"
proof -
  have listing: "mset (order_by_created_at_desc (filter_by_user_id (tasks d) u)) =
        mset (filter (\<lambda>r. user_id r = u) (tasks d)) \<and>
      sorted_wrt (\<lambda>a b. created_at b \<le> created_at a)
        (order_by_created_at_desc (filter_by_user_id (tasks d) u)) \<and>
      (\<forall>x\<in>set (tasks d). \<forall>y\<in>set (tasks d).
         user_id x = u \<and> user_id y = u \<and> created_at x < created_at y \<longrightarrow>
         y \<in> set (takeWhile (\<lambda>r. r \<noteq> x)
           (order_by_created_at_desc (filter_by_user_id (tasks d) u))))" for d
  proof -
    let ?rows = "order_by_created_at_desc (filter_by_user_id (tasks d) u)"
    have m: "mset ?rows = mset (filter (\<lambda>r. user_id r = u) (tasks d))"
      by (simp add: order_by_mset filter_by_user_id_def)
    have s: "sorted_wrt (\<lambda>a b. created_at b \<le> created_at a) ?rows"
      by (rule order_by_sorted)
    have "y \<in> set (takeWhile (\<lambda>r. r \<noteq> x) ?rows)"
      if "x \<in> set (tasks d)" "y \<in> set (tasks d)" "user_id x = u" "user_id y = u"
        "created_at x < created_at y" for x y
    proof -
      have "x \<in> set ?rows" and "y \<in> set ?rows"
        using that(1-4) by (simp_all add: order_by_set filter_by_user_id_def)
      then show ?thesis
        using that(5) by (rule later_listed_before [OF s])
    qed
    with m s show ?thesis
      by blast
  qed
  have first: "\<exists>rows.
            api_get_tasks strftime db sess =
              \<lparr>status = 200, success = True, message = None, user_json = None,
               tasks_json = Some (map (task_to_json strftime) rows)\<rparr> \<and>
            mset rows = mset (filter (\<lambda>r. user_id r = u) (tasks db)) \<and>
            sorted_wrt (\<lambda>a b. created_at b \<le> created_at a) rows \<and>
            (\<forall>x\<in>set (tasks db). \<forall>y\<in>set (tasks db).
               user_id x = u \<and> user_id y = u \<and> created_at x < created_at y \<longrightarrow>
               y \<in> set (takeWhile (\<lambda>r. r \<noteq> x) rows))"
    using api_get_tasks_rows [OF assms, of strftime db] listing [of db] by blast
  have second: "\<exists>rows x y.
             tasks (snd (api_create_task e_y (snd (api_create_task e_x db sess data_x)) sess
               data_y)) = tasks db @ [x, y] \<and>
             title x = strip (get data_x ''title'' (lit '''')) \<and>
             title y = strip (get data_y ''title'' (lit '''')) \<and>
             tasks_json (api_get_tasks strftime
               (snd (api_create_task e_y (snd (api_create_task e_x db sess data_x)) sess data_y))
               sess) = Some (map (task_to_json strftime) rows) \<and>
             x \<in> set rows \<and> y \<in> set (takeWhile (\<lambda>r. r \<noteq> x) rows)"
    if tx: "strip (get data_x ''title'' (lit '''')) \<noteq> []"
      and ty: "strip (get data_y ''title'' (lit '''')) \<noteq> []"
      and ok: "commit_ok e_x" "commit_ok e_y" and lt: "now e_x < now e_y"
  proof -
    let ?x = "\<lparr>tid = new_id e_x, title = strip (get data_x ''title'' (lit '''')),
          content = strip (get data_x ''content'' (lit '''')), is_done = False,
          created_at = now e_x, user_id = u\<rparr>"
    let ?y = "\<lparr>tid = new_id e_y, title = strip (get data_y ''title'' (lit '''')),
          content = strip (get data_y ''content'' (lit '''')), is_done = False,
          created_at = now e_y, user_id = u\<rparr>"
    let ?db2 = "snd (api_create_task e_y (snd (api_create_task e_x db sess data_x)) sess data_y)"
    let ?rows = "order_by_created_at_desc (filter_by_user_id (tasks ?db2) u)"
    have t2: "tasks ?db2 = tasks db @ [?x, ?y]"
      by (simp add: create_committed [OF assms tx ok(1)] create_committed [OF assms ty ok(2)])
    have "?x \<in> set (tasks ?db2)" and "?y \<in> set (tasks ?db2)"
      by (simp_all add: t2)
    moreover have "user_id ?x = u" "user_id ?y = u" "created_at ?x < created_at ?y"
      using lt by simp_all
    ultimately have before: "?y \<in> set (takeWhile (\<lambda>r. r \<noteq> ?x) ?rows)"
      using listing [of ?db2] by blast
    have "?x \<in> set ?rows"
      by (simp add: order_by_set filter_by_user_id_def t2)
    moreover have "tasks_json (api_get_tasks strftime ?db2 sess) =
        Some (map (task_to_json strftime) ?rows)"
      by (simp add: api_get_tasks_rows [OF assms])
    moreover have "title ?x = strip (get data_x ''title'' (lit ''''))"
      and "title ?y = strip (get data_y ''title'' (lit ''''))"
      by simp_all
    ultimately show ?thesis
      using t2 before by blast
  qed
  from first second show ?thesis
    by blast
qed

theorem list_owner_tasks_newest_first_witness:
  "sess_user_id (session_of alice) = Some 1 \<and>
   strip (get (titled ''X'') ''title'' (lit '''')) \<noteq> [] \<and>
   strip (get (titled ''Y'') ''title'' (lit '''')) \<noteq> [] \<and>
   commit_ok (env_at 20 2) \<and> commit_ok (env_at 25 3) \<and> now (env_at 20 2) < now (env_at 25 3) \<and>
   (\<exists>rows x y.
      tasks (snd (api_create_task (env_at 25 3)
        (snd (api_create_task (env_at 20 2) sample_db (session_of alice) (titled ''X'')))
        (session_of alice) (titled ''Y''))) = tasks sample_db @ [x, y] \<and>
      title x = lit ''X'' \<and> title y = lit ''Y'' \<and>
      tasks_json (api_get_tasks sample_strftime
        (snd (api_create_task (env_at 25 3)
          (snd (api_create_task (env_at 20 2) sample_db (session_of alice) (titled ''X'')))
          (session_of alice) (titled ''Y'')))
        (session_of alice)) = Some (map (task_to_json sample_strftime) rows) \<and>
      x \<in> set rows \<and> y \<in> set (takeWhile (\<lambda>r. r \<noteq> x) rows))"
proof -
  have auth: "sess_user_id (session_of alice) = Some 1"
    by (simp add: sample_defs)
  have tx: "strip (get (titled ''X'') ''title'' (lit '''')) = lit ''X''"
    and ty: "strip (get (titled ''Y'') ''title'' (lit '''')) = lit ''Y''"
    by (simp_all add: titled_def string_defs)
  have ne: "lit ''X'' \<noteq> []" "lit ''Y'' \<noteq> []"
    by (simp_all add: lit_def)
  have envs: "commit_ok (env_at 20 2)" "commit_ok (env_at 25 3)"
    "now (env_at 20 2) < now (env_at 25 3)"
    by (simp_all add: env_at_def)
  show ?thesis
    using auth ne envs
      list_owner_tasks_newest_first [OF auth, where data_x = "titled ''X''"
        and data_y = "titled ''Y''" and e_x = "env_at 20 2" and e_y = "env_at 25 3"
        and db = sample_db and strftime = sample_strftime]
    unfolding tx ty by blast
qed

end
